theory Spec2Isabelle
  imports Complex_Main "HOL-Library.AList"
begin

section \<open>Authenticated HTTP client of the Rockstar plugin (src/http_client.py)\<close>

text \<open>
  A shallow embedding of the classes \<^verbatim>\<open>Token\<close> and \<^verbatim>\<open>AuthenticatedHttpClient\<close>.
  Attributes of the client are fields of the record \<open>client\<close>; every method takes the
  client and returns its result together with the updated client. A Python exception is
  the left injection of a sum. The outside world (the clock, the identity provider that
  answers the HTTP calls, the host's store-credentials callback and the log) is part of
  the same record, so that a run of a method is a function of the state alone.
\<close>

subsection \<open>Values\<close>

text \<open>Exceptions that the modelled code can meet.\<close>

datatype error =
    TypeError
  | AttributeError
  | KeyError string
  | IndexError
  | ValueError
  | CookieConflictError
  | RequestError string

text \<open>Parsed JSON documents, as \<^verbatim>\<open>resp.json()\<close> returns them.\<close>

datatype json =
    JNull
  | JBool bool
  | JNum int
  | JStr string
  | JArr "json list"
  | JObj "(string \<times> json) list"

text \<open>
  \<^verbatim>\<open>v[key]\<close> with a string key: a dict looks the key up (KeyError when absent); a
  list, a string, a number, a boolean and None raise TypeError.
\<close>

fun py_index :: "json \<Rightarrow> string \<Rightarrow> error + json" where
  "py_index (JObj kvs) k = (case map_of kvs k of None \<Rightarrow> Inl (KeyError k) | Some v \<Rightarrow> Inr v)"
| "py_index _ k = Inl TypeError"

text \<open>\<^verbatim>\<open>v[0]\<close>: the first element of a list or string; a dict has no key 0.\<close>

fun py_index0 :: "json \<Rightarrow> error + json" where
  "py_index0 (JArr []) = Inl IndexError"
| "py_index0 (JArr (x # xs)) = Inr x"
| "py_index0 (JStr []) = Inl IndexError"
| "py_index0 (JStr (c # cs)) = Inr (JStr [c])"
| "py_index0 (JObj kvs) = Inl (KeyError ''0'')"
| "py_index0 _ = Inl TypeError"

text \<open>
  \<^verbatim>\<open>for x in v\<close>: a list yields its elements, a dict its keys, a string its
  characters; anything else is not iterable.
\<close>

fun py_iter :: "json \<Rightarrow> error + json list" where
  "py_iter (JArr xs) = Inr xs"
| "py_iter (JObj kvs) = Inr (map (\<lambda>kv. JStr (fst kv)) kvs)"
| "py_iter (JStr s) = Inr (map (\<lambda>c. JStr [c]) s)"
| "py_iter _ = Inl TypeError"

text \<open>\<^verbatim>\<open>"literal" + v\<close>: concatenation of a str with anything but a str raises.\<close>

fun str_plus :: "string \<Rightarrow> json \<Rightarrow> error + string" where
  "str_plus s (JStr t) = Inr (s @ t)"
| "str_plus s _ = Inl TypeError"

subsection \<open>Floats\<close>

text \<open>
  A Python float is an IEEE 754 double: 53 significant bits, and the result of an
  addition is the exact sum rounded to the nearest double, a tie going to the double
  whose last bit is even. A double is kept here as the real number it denotes.
  \<^item> \<open>round_even y\<close> is the integer nearest to \<open>y\<close>, the even one of the two at a tie.
  \<^item> \<open>ulp x\<close> is the distance between neighbouring doubles at the magnitude of \<open>x\<close>:
    \<open>2\<close> to the power \<open>e - 52\<close> when \<open>\<bar>x\<bar>\<close> lies between \<open>2\<close> to the \<open>e\<close> and \<open>2\<close> to the
    \<open>e + 1\<close>, with \<open>e\<close> no less than \<open>- 1022\<close> (the subnormal range).
  \<^item> \<open>double_round x\<close> is the double nearest to \<open>x\<close>, and \<open>double_add a b\<close> is \<^verbatim>\<open>a + b\<close>
    on floats.
  Overflow to infinity (a sum of magnitude \<open>2\<close> to the \<open>1024\<close> or more) is left out: the
  floats added here are a reading of the clock and a number of seconds.
\<close>

definition round_even :: "real \<Rightarrow> int" where
  "round_even y =
     (let f = \<lfloor>y\<rfloor> in
      if y - of_int f < 1 / 2 then f
      else if 1 / 2 < y - of_int f then f + 1
      else if even f then f else f + 1)"

definition ulp :: "real \<Rightarrow> real" where
  "ulp x = 2 powr (of_int (max \<lfloor>log 2 \<bar>x\<bar>\<rfloor> (- 1022)) - 52)"

definition double_round :: "real \<Rightarrow> real" where
  "double_round x = (if x = 0 then 0 else ulp x * of_int (round_even (x / ulp x)))"

definition double_add :: "real \<Rightarrow> real \<Rightarrow> real" where
  "double_add a b = double_round (a + b)"

subsection \<open>Token\<close>

text \<open>
  The class \<^verbatim>\<open>Token\<close>: both attributes start as None. Instants are the floats that
  \<^verbatim>\<open>time()\<close> returns, in seconds.
\<close>

record token =
  tok_token :: "string option"
  tok_expires :: "real option"

definition new_token :: token where
  "new_token = \<lparr>tok_token = None, tok_expires = None\<rparr>"

definition set_token :: "string option \<Rightarrow> real option \<Rightarrow> token \<Rightarrow> token" where
  "set_token t e tk = tk\<lparr>tok_token := t, tok_expires := e\<rparr>"

definition get_token :: "token \<Rightarrow> string option" where
  "get_token tk = tok_token tk"

definition get_expiration :: "token \<Rightarrow> real option" where
  "get_expiration tk = tok_expires tk"

text \<open>
  \<^verbatim>\<open>self._expires <= time()\<close>: ordering None against a float raises TypeError.
\<close>

definition expired :: "token \<Rightarrow> real \<Rightarrow> error + bool" where
  "expired tk now =
     (case tok_expires tk of
        None \<Rightarrow> Inl TypeError
      | Some e \<Rightarrow> Inr (e \<le> now))"

subsection \<open>The session's cookie collection\<close>

text \<open>
  A cookie of the \<^verbatim>\<open>requests\<close> session, and the dict that \<^verbatim>\<open>update_cookie\<close>
  receives (keys name, value, domain, path). The collection is the list of its cookies in
  iteration order; it holds at most one cookie for a (domain, path, name).
  The operations below are the ones of \<^verbatim>\<open>RequestsCookieJar\<close> that the client calls:
  \<^item> \<open>jar_get\<close> is \<^verbatim>\<open>jar[name]\<close>: KeyError when no cookie has the name or the one
    found has an empty value, CookieConflictError when several have it;
  \<^item> \<open>jar_contains\<close> is \<^verbatim>\<open>name in jar\<close>: a conflict counts as present;
  \<^item> \<open>jar_del\<close> is \<^verbatim>\<open>del jar[name]\<close>: removes every cookie of that name, silently
    when there is none;
  \<^item> \<open>jar_set\<close> stores a cookie, replacing the one of the same domain, path and name.
\<close>

record cookie =
  cookie_name :: string
  cookie_value :: string
  cookie_domain :: string
  cookie_path :: string

type_synonym jar = "cookie list"

definition jar_get :: "jar \<Rightarrow> string \<Rightarrow> error + string" where
  "jar_get j n =
     (case filter (\<lambda>c. cookie_name c = n) j of
        [] \<Rightarrow> Inl (KeyError n)
      | [c] \<Rightarrow> (if cookie_value c = [] then Inl (KeyError n) else Inr (cookie_value c))
      | _ \<Rightarrow> Inl CookieConflictError)"

definition jar_contains :: "jar \<Rightarrow> string \<Rightarrow> bool" where
  "jar_contains j n = (case jar_get j n of Inl (KeyError _) \<Rightarrow> False | _ \<Rightarrow> True)"

definition jar_del :: "string \<Rightarrow> jar \<Rightarrow> jar" where
  "jar_del n j = filter (\<lambda>c. cookie_name c \<noteq> n) j"

definition same_slot :: "cookie \<Rightarrow> cookie \<Rightarrow> bool" where
  "same_slot c d \<longleftrightarrow>
     cookie_domain c = cookie_domain d \<and> cookie_path c = cookie_path d \<and>
     cookie_name c = cookie_name d"

fun jar_set :: "cookie \<Rightarrow> jar \<Rightarrow> jar" where
  "jar_set c [] = [c]"
| "jar_set c (d # ds) = (if same_slot c d then c # ds else d # jar_set c ds)"

text \<open>\<^verbatim>\<open>re.search("^rsso", name)\<close>: the name starts with the four letters.\<close>

definition is_rsso :: "string \<Rightarrow> bool" where
  "is_rsso n \<longleftrightarrow> take 4 n = ''rsso''"

record session =
  cookies :: jar
  max_redirects :: nat

subsection \<open>The client and its world\<close>

text \<open>
  The auth-lost slot holds None, the value True that the client itself stores there, or a
  callback of the host; both non-None values are truthy.
\<close>

datatype callback = PyTrue | HostCallback

text \<open>
  Values of the credentials dict. \<^verbatim>\<open>pickle.dumps(x).hex()\<close> is kept as the object that
  was serialised.
\<close>

datatype pyval =
    PJson json
  | PStr "string option"
  | PHexSession "session option"
  | PHexToken token

type_synonym dict = "(string \<times> pyval) list"

text \<open>
  The HTTP calls the client issues, and what the provider does with one: the call raises,
  or it answers with the cookies that the response sets, the body text and the parsed
  body (None when \<^verbatim>\<open>resp.json()\<close> raises).
\<close>

datatype call =
    ClientRequest string string
  | SessionGet string
  | SessionPost string
  | FreshGet string

datatype reply =
    Fails error
  | Answers "cookie list" string "json option"

text \<open>A log record: the level and the message, whose parts are literal text,
  \<^verbatim>\<open>str(v)\<close> of a document or \<^verbatim>\<open>repr(e)\<close> of an exception.\<close>

datatype level = DEBUG | WARNING | ERROR

datatype frag = Lit string | Str json | Repr error

type_synonym log_record = "level \<times> frag list"

text \<open>
  The attributes of \<^verbatim>\<open>AuthenticatedHttpClient\<close> that the modelled methods use, followed
  by the world:
  \<^item> \<open>user\<close> is a reference to a dict object in \<open>heap\<close>, since \<^verbatim>\<open>get_credentials\<close>
    mutates the dict it is handed; \<open>next_ref\<close> is the reference the next new dict gets;
  \<^item> \<open>clock\<close> is the float that \<^verbatim>\<open>time()\<close> returns;
  \<^item> \<open>provider\<close> gives the outcome of the n-th HTTP call of the run, \<open>sent\<close> lists the
    calls issued so far;
  \<^item> \<open>stored\<close> lists the invocations of the \<^verbatim>\<open>store_credentials\<close> callback, each with the
    reference it was given and the content of the dict at that moment;
  \<^item> \<open>log\<close> lists the records written through \<^verbatim>\<open>logging\<close>.
  The aiohttp cookie jars, the UTC offset and \<^verbatim>\<open>traceback.print_exc()\<close> are left out.
\<close>

record client =
  debug_always_refresh :: bool
  bearer :: "json option"
  refresh :: "json option"
  refresh_token :: token
  fingerprint :: "string option"
  user :: "nat option"
  current_session :: "session option"
  auth_lost_callback :: "callback option"
  current_auth_token :: "string option"
  first_auth :: bool
  heap :: "nat \<Rightarrow> dict"
  next_ref :: nat
  clock :: real
  provider :: "nat \<Rightarrow> reply"
  sent :: "call list"
  stored :: "(nat \<times> dict) list"
  log :: "log_record list"

text \<open>\<^verbatim>\<open>__init__\<close>, in a world with the given clock and provider.\<close>

definition init :: "real \<Rightarrow> (nat \<Rightarrow> reply) \<Rightarrow> client" where
  "init now p =
     \<lparr>debug_always_refresh = False, bearer = None, refresh = None,
      refresh_token = new_token, fingerprint = None, user = None,
      current_session = None, auth_lost_callback = None, current_auth_token = None,
      first_auth = True, heap = (\<lambda>a. []), next_ref = 0, clock = now, provider = p, sent = [], stored = [],
      log = []\<rparr>"

definition log_add :: "level \<Rightarrow> frag list \<Rightarrow> client \<Rightarrow> client" where
  "log_add l m s = s\<lparr>log := log s @ [(l, m)]\<rparr>"

definition store_credentials :: "nat \<Rightarrow> client \<Rightarrow> client" where
  "store_credentials a s = s\<lparr>stored := stored s @ [(a, heap s a)]\<rparr>"

text \<open>
  \<^verbatim>\<open>get_credentials\<close>: the four item assignments go to the dict that \<open>user\<close> refers to,
  and that reference is returned. Assigning an item of None raises TypeError.
\<close>

definition get_credentials :: "client \<Rightarrow> (error + nat) \<times> client" where
  "get_credentials s =
     (case user s of
        None \<Rightarrow> (Inl TypeError, s)
      | Some a \<Rightarrow>
          (Inr a,
           s\<lparr>heap := (heap s)(a :=
                AList.update ''fingerprint'' (PStr (fingerprint s))
                 (AList.update ''refresh_token'' (PHexToken (refresh_token s))
                   (AList.update ''current_auth_token'' (PStr (current_auth_token s))
                     (AList.update ''session_object'' (PHexSession (current_session s))
                       (heap s a)))))\<rparr>))"

text \<open>
  \<^verbatim>\<open>update_cookie\<close>. The loop runs over the cookies that the collection held when it
  started; each deletion removes the cookies of one name. Without a session the attribute
  access on None raises.
\<close>

definition del_old_rsso :: "jar \<Rightarrow> jar" where
  "del_old_rsso j = fold (\<lambda>old acc. if is_rsso (cookie_name old) then jar_del (cookie_name old) acc else acc) j j"

definition update_cookie :: "cookie \<Rightarrow> client \<Rightarrow> (error + unit) \<times> client" where
  "update_cookie c s =
     (case current_session s of
        None \<Rightarrow> (Inl AttributeError, s)
      | Some ss \<Rightarrow>
          (let j1 = (if is_rsso (cookie_name c) then del_old_rsso (cookies ss) else cookies ss);
               j2 = jar_del (cookie_name c) j1;
               j3 = jar_set c j2
           in (Inr (), s\<lparr>current_session := Some (ss\<lparr>cookies := j3\<rparr>)\<rparr>)))"

definition set_auth_lost_callback :: "callback option \<Rightarrow> client \<Rightarrow> client" where
  "set_auth_lost_callback cb s = s\<lparr>auth_lost_callback := cb\<rparr>"

definition is_authenticated :: "client \<Rightarrow> bool" where
  "is_authenticated s \<longleftrightarrow> user s \<noteq> None \<and> auth_lost_callback s = None"

definition set_current_auth_token :: "string option \<Rightarrow> client \<Rightarrow> client" where
  "set_current_auth_token t s = s\<lparr>current_auth_token := t\<rparr>"

text \<open>\<^verbatim>\<open>time() + (3600 * 24 * 365 * 20)\<close>: the int is converted exactly, the sum is a float
  addition.\<close>

definition set_refresh_token :: "string option \<Rightarrow> client \<Rightarrow> client" where
  "set_refresh_token t s =
     (let expiration_time = double_add (clock s) (3600 * 24 * 365 * 20)
      in s\<lparr>refresh_token := set_token t (Some expiration_time) (refresh_token s)\<rparr>)"

definition set_refresh_token_absolute :: "token \<Rightarrow> client \<Rightarrow> client" where
  "set_refresh_token_absolute tk s = s\<lparr>refresh_token := tk\<rparr>"

definition get_refresh_token :: "client \<Rightarrow> (error + string option) \<times> client" where
  "get_refresh_token s =
     (case expired (refresh_token s) (clock s) of
        Inl e \<Rightarrow> (Inl e, s)
      | Inr True \<Rightarrow>
          (let s1 = log_add DEBUG [Lit ''ROCKSTAR_REFRESH_EXPIRED: The refresh token has expired!''] s;
               s2 = s1\<lparr>refresh_token := set_token None None (refresh_token s1)\<rparr>
           in (Inr (get_token (refresh_token s2)), s2))
      | Inr False \<Rightarrow> (Inr (get_token (refresh_token s)), s))"

definition set_fingerprint :: "string option \<Rightarrow> client \<Rightarrow> client" where
  "set_fingerprint f s = s\<lparr>fingerprint := f\<rparr>"

definition is_fingerprint_defined :: "client \<Rightarrow> bool" where
  "is_fingerprint_defined s \<longleftrightarrow> fingerprint s \<noteq> None"

subsection \<open>HTTP calls\<close>

text \<open>
  Every HTTP call is recorded in \<open>sent\<close> and answered by the provider's reply for its
  position in the run.
  \<^item> \<open>session_call\<close>: \<^verbatim>\<open>self._current_session.get\<close> and \<^verbatim>\<open>.post\<close>; the cookies
    of the response go into the session's collection.
  \<^item> \<open>fresh_get_json\<close>: \<^verbatim>\<open>requests.Session().get(url, ...)\<close> followed by
    \<^verbatim>\<open>resp.json()\<close>, on a session that is thrown away.
  \<^item> \<open>client_request\<close>: \<^verbatim>\<open>self.request(method, ...)\<close> of the host's HTTP client.
\<close>

type_synonym response = "string \<times> json option"

definition next_reply :: "call \<Rightarrow> client \<Rightarrow> reply \<times> client" where
  "next_reply c s = (provider s (length (sent s)), s\<lparr>sent := sent s @ [c]\<rparr>)"

definition resp_json :: "response \<Rightarrow> error + json" where
  "resp_json r = (case snd r of None \<Rightarrow> Inl ValueError | Some j \<Rightarrow> Inr j)"

definition session_call :: "call \<Rightarrow> client \<Rightarrow> (error + response) \<times> client" where
  "session_call c s =
     (case current_session s of
        None \<Rightarrow> (Inl AttributeError, s)
      | Some ss \<Rightarrow>
          (case next_reply c s of
             (Fails e, s1) \<Rightarrow> (Inl e, s1)
           | (Answers cs text js, s1) \<Rightarrow>
               (Inr (text, js),
                s1\<lparr>current_session := Some (ss\<lparr>cookies := fold jar_set cs (cookies ss)\<rparr>)\<rparr>)))"

definition fresh_get_json :: "string \<Rightarrow> client \<Rightarrow> (error + json) \<times> client" where
  "fresh_get_json url s =
     (case next_reply (FreshGet url) s of
        (Fails e, s1) \<Rightarrow> (Inl e, s1)
      | (Answers cs text js, s1) \<Rightarrow> (resp_json (text, js), s1))"

definition client_request :: "string \<Rightarrow> string \<Rightarrow> client \<Rightarrow> (error + response) \<times> client" where
  "client_request m url s =
     (case next_reply (ClientRequest m url) s of
        (Fails e, s1) \<Rightarrow> (Inl e, s1)
      | (Answers cs text js, s1) \<Rightarrow> (Inr (text, js), s1))"

text \<open>\<^verbatim>\<open>self._current_session.cookies[name]\<close>\<close>

definition session_cookie :: "string \<Rightarrow> client \<Rightarrow> error + string" where
  "session_cookie n s =
     (case current_session s of
        None \<Rightarrow> Inl AttributeError
      | Some ss \<Rightarrow> jar_get (cookies ss) n)"

subsection \<open>The profile document\<close>

text \<open>\<^verbatim>\<open>f"{str(t)[:5]}***{str(t[-3:])}"\<close>\<close>

definition redact :: "string \<Rightarrow> string" where
  "redact t = take 5 t @ ''***'' @ drop (length t - 3) t"

definition get_user_url :: string where
  "get_user_url = ''https://www.rockstargames.com/auth/get-user.json''"

text \<open>The body of the \<^verbatim>\<open>try\<close> block of \<^verbatim>\<open>_get_user_json\<close>.\<close>

definition get_user_json_try :: "client \<Rightarrow> (error + json) \<times> client" where
  "get_user_json_try s =
     (case session_cookie ''ScAuthTokenData'' s of
        Inl e \<Rightarrow> (Inl e, s)
      | Inr old_auth \<Rightarrow>
         (let s1 = log_add DEBUG [Lit (''ROCKSTAR_OLD_AUTH: '' @ redact old_auth)] s in
          case current_auth_token s1 of
            None \<Rightarrow> (Inl TypeError, s1)
          | Some t \<Rightarrow>
             (case session_call (SessionGet get_user_url) s1 of
                (Inl e, s2) \<Rightarrow> (Inl e, s2)
              | (Inr resp, s2) \<Rightarrow>
                 (case session_cookie ''ScAuthTokenData'' s2 of
                    Inl e \<Rightarrow> (Inl e, s2)
                  | Inr new_auth \<Rightarrow>
                     (let s3 = log_add DEBUG [Lit (''ROCKSTAR_NEW_AUTH '' @ redact new_auth)] s2;
                          s4 = s3\<lparr>current_auth_token := Some new_auth\<rparr>
                      in if new_auth \<noteq> old_auth then
                           (let s5 = log_add WARNING
                                  [Lit ''ROCKSTAR_AUTH_CHANGE: The ScAuthTokenData value has changed!''] s4
                            in if user s5 \<noteq> None then
                                 (case get_credentials s5 of
                                    (Inl e, s6) \<Rightarrow> (Inl e, s6)
                                  | (Inr a, s6) \<Rightarrow> (resp_json resp, store_credentials a s6))
                               else (resp_json resp, s5))
                         else (resp_json resp, s4))))))"

definition get_user_json :: "string option \<Rightarrow> client \<Rightarrow> (error + json) \<times> client" where
  "get_user_json message s =
     (case get_user_json_try s of
        (Inl e, s1) \<Rightarrow>
          (Inl e,
           log_add ERROR
             (case message of
                Some m \<Rightarrow> [Lit m]
              | None \<Rightarrow>
                  [Lit ''ROCKSTAR_USER_JSON_ERROR: The request to get the get-user.json file resulted in this exception: '',
                   Repr e]) s1)
      | (Inr doc, s1) \<Rightarrow> (Inr doc, s1))"

text \<open>\<^verbatim>\<open>resp_json["user"]["auth_token"][key]\<close>\<close>

definition auth_token_field :: "json \<Rightarrow> string \<Rightarrow> error + json" where
  "auth_token_field doc k =
     (case py_index doc ''user'' of
        Inl e \<Rightarrow> Inl e
      | Inr u \<Rightarrow>
         (case py_index u ''auth_token'' of
            Inl e \<Rightarrow> Inl e
          | Inr t \<Rightarrow> py_index t k))"

definition get_bearer_try :: "client \<Rightarrow> (error + json) \<times> client" where
  "get_bearer_try s =
     (case get_user_json None s of
        (Inl e, s1) \<Rightarrow> (Inl e, s1)
      | (Inr doc, s1) \<Rightarrow>
         (let s2 = log_add DEBUG [Lit ''ROCKSTAR_AUTH_JSON: '', Str doc] s1 in
          case auth_token_field doc ''access_token'' of
            Inl e \<Rightarrow> (Inl e, s2)
          | Inr new_bearer \<Rightarrow>
             (let s3 = s2\<lparr>bearer := Some new_bearer\<rparr> in
              case auth_token_field doc ''refresh_token'' of
                Inl e \<Rightarrow> (Inl e, s3)
              | Inr r \<Rightarrow> (Inr new_bearer, s3\<lparr>refresh := Some r\<rparr>))))"

definition get_bearer :: "client \<Rightarrow> (error + json) \<times> client" where
  "get_bearer s =
     (case get_bearer_try s of
        (Inl e, s1) \<Rightarrow>
          (Inl e,
           log_add ERROR
             [Lit ''ERROR: The request to refresh credentials resulted in this exception: '', Repr e] s1)
      | (Inr b, s1) \<Rightarrow> (Inr b, s1))"

text \<open>
  The loop of \<^verbatim>\<open>get_played_games\<close> over the entries, with the list built so far.
\<close>

fun collect_pc :: "json list \<Rightarrow> json list \<Rightarrow> error + json list" where
  "collect_pc [] return_list = Inr return_list"
| "collect_pc (game # rest) return_list =
     (case py_index game ''platform'' of
        Inl e \<Rightarrow> Inl e
      | Inr p \<Rightarrow>
         (if p = JStr ''PC'' then
            (case py_index game ''id'' of
               Inl e \<Rightarrow> Inl e
             | Inr i \<Rightarrow> collect_pc rest (return_list @ [i]))
          else collect_pc rest return_list))"

definition played_games_of :: "json \<Rightarrow> error + json" where
  "played_games_of doc =
     (case py_index doc ''user'' of
        Inl e \<Rightarrow> Inl e
      | Inr u \<Rightarrow> py_index u ''games_played'')"

definition get_played_games_try :: "client \<Rightarrow> (error + json list) \<times> client" where
  "get_played_games_try s =
     (case get_user_json None s of
        (Inl e, s1) \<Rightarrow> (Inl e, s1)
      | (Inr doc, s1) \<Rightarrow>
         (case played_games_of doc of
            Inl e \<Rightarrow> (Inl e, s1)
          | Inr played_games \<Rightarrow>
             (case py_iter played_games of
                Inl e \<Rightarrow> (Inl e, s1)
              | Inr games \<Rightarrow> (collect_pc games [], s1))))"

definition get_played_games :: "client \<Rightarrow> (error + json list) \<times> client" where
  "get_played_games s =
     (case get_played_games_try s of
        (Inl e, s1) \<Rightarrow>
          (Inl e,
           log_add ERROR
             [Lit ''ROCKSTAR_PLAYED_GAMES_ERROR: The request to scrape the user's played games resulted in this exception: '',
              Repr e] s1)
      | (Inr ids, s1) \<Rightarrow> (Inr ids, s1))"

subsection \<open>Re-authentication\<close>

text \<open>
  The first loop of \<^verbatim>\<open>refresh_credentials\<close>: the name of the last cookie whose name
  starts with rsso, and the dict of the values of all such cookies.
\<close>

definition find_rsso :: "jar \<Rightarrow> string option \<times> (string \<times> string) list" where
  "find_rsso j =
     fold (\<lambda>c (rsso_name, rsso_cookie).
             if is_rsso (cookie_name c)
             then (Some (cookie_name c), AList.update (cookie_name c) (cookie_value c) rsso_cookie)
             else (rsso_name, rsso_cookie))
          j (None, [])"

text \<open>
  The value of the Cookie header of the first POST:
  \<^verbatim>\<open>"RMT=" + self.get_refresh_token() + "; " + rsso_name + "=" + rsso_cookie[rsso_name]\<close>,
  evaluated from left to right.
\<close>

definition refresh_cookie_header ::
  "string option \<Rightarrow> (string \<times> string) list \<Rightarrow> client \<Rightarrow> (error + string) \<times> client" where
  "refresh_cookie_header rsso_name rsso_cookie s =
     (case get_refresh_token s of
        (Inl e, s1) \<Rightarrow> (Inl e, s1)
      | (Inr None, s1) \<Rightarrow> (Inl TypeError, s1)
      | (Inr (Some rmt), s1) \<Rightarrow>
         (case rsso_name of
            None \<Rightarrow> (Inl TypeError, s1)
          | Some n \<Rightarrow>
             (case map_of rsso_cookie n of
                None \<Rightarrow> (Inl (KeyError n), s1)
              | Some v \<Rightarrow> (Inr (''RMT='' @ rmt @ ''; '' @ n @ ''='' @ v), s1))))"

definition cors_check_url :: string where
  "cors_check_url = ''https://signin.rockstargames.com/connect/cors/check/rsg''"

definition login_url :: string where
  "login_url = ''https://www.rockstargames.com/auth/login.json''"

text \<open>The new refresh token: the RMT cookie when the session has it, else the empty string.\<close>

definition take_rmt :: "client \<Rightarrow> (error + unit) \<times> client" where
  "take_rmt s =
     (case current_session s of
        None \<Rightarrow> (Inl AttributeError, s)
      | Some ss \<Rightarrow>
         (if jar_contains (cookies ss) ''RMT'' then
            (case jar_get (cookies ss) ''RMT'' of
               Inl e \<Rightarrow> (Inl e, s)
             | Inr v \<Rightarrow> (Inr (), set_refresh_token (Some v) s))
          else
            (Inr (),
             set_refresh_token (Some [])
               (log_add DEBUG
                  [Lit ''ROCKSTAR_RMT_MISSING: The RMT cookie is missing, presumably because the user has not enabled two-factor authentication. Proceeding anyways...''] s))))"

text \<open>The second half of the \<^verbatim>\<open>try\<close> block: the old auth token is dropped, the code
  is posted and the new auth token is read.\<close>

definition login_with_code :: "string \<Rightarrow> client \<Rightarrow> (error + unit) \<times> client" where
  "login_with_code refresh_code s =
     (case current_session s of
        None \<Rightarrow> (Inl AttributeError, s)
      | Some ss \<Rightarrow>
         (case jar_get (cookies ss) ''ScAuthTokenData'' of
            Inl e \<Rightarrow> (Inl e, s)
          | Inr old_auth \<Rightarrow>
             (let s1 = s\<lparr>current_session := Some (ss\<lparr>cookies := jar_del ''ScAuthTokenData'' (cookies ss)\<rparr>),
                         current_auth_token := None\<rparr>;
                  s2 = log_add DEBUG [Lit (''ROCKSTAR_OLD_AUTH_REFRESH: '' @ old_auth)] s1
              in case session_cookie ''TS019978c2'' s2 of
                   Inl e \<Rightarrow> (Inl e, s2)
                 | Inr ts \<Rightarrow>
                    (case session_call (SessionPost login_url) s2 of
                       (Inl e, s3) \<Rightarrow> (Inl e, s3)
                     | (Inr final_request, s3) \<Rightarrow>
                        (case resp_json final_request of
                           Inl e \<Rightarrow> (Inl e, s3)
                         | Inr final_json \<Rightarrow>
                            (let s4 = log_add DEBUG [Lit ''ROCKSTAR_REFRESH_JSON: '', Str final_json] s3 in
                             case session_cookie ''ScAuthTokenData'' s4 of
                               Inl e \<Rightarrow> (Inl e, s4)
                             | Inr new_auth \<Rightarrow>
                                (let s5 = s4\<lparr>current_auth_token := Some new_auth\<rparr>;
                                     s6 = log_add DEBUG [Lit (''ROCKSTAR_NEW_AUTH_REFRESH: '' @ new_auth)] s5
                                 in (Inr (),
                                     if old_auth \<noteq> new_auth
                                     then log_add DEBUG
                                            [Lit ''ROCKSTAR_REFRESH_SUCCESS: The user has been successfully re-authenticated!''] s6
                                     else s6))))))))"

definition refresh_credentials_try :: "client \<Rightarrow> (error + unit) \<times> client" where
  "refresh_credentials_try s =
     (case current_session s of
        None \<Rightarrow> (Inl AttributeError, s)
      | Some ss \<Rightarrow>
         (case find_rsso (cookies ss) of
            (rsso_name, rsso_cookie) \<Rightarrow>
             (case refresh_cookie_header rsso_name rsso_cookie s of
                (Inl e, s1) \<Rightarrow> (Inl e, s1)
              | (Inr h, s1) \<Rightarrow>
                 (case session_call (SessionPost cors_check_url) s1 of
                    (Inl e, s2) \<Rightarrow> (Inl e, s2)
                  | (Inr refresh_resp, s2) \<Rightarrow>
                     (let refresh_code = fst refresh_resp;
                          s3 = log_add DEBUG
                                 [Lit (''ROCKSTAR_REFRESH_CODE: Got code '' @ refresh_code @ ''!'')] s2
                      in case take_rmt s3 of
                           (Inl e, s4) \<Rightarrow> (Inl e, s4)
                         | (Inr u, s4) \<Rightarrow> login_with_code refresh_code s4)))))"

definition refresh_credentials :: "client \<Rightarrow> (error + unit) \<times> client" where
  "refresh_credentials s =
     (case refresh_credentials_try s of
        (Inl e, s1) \<Rightarrow>
          (Inl e,
           log_add DEBUG
             [Lit ''ROCKSTAR_REFRESH_FAILURE: The attempt to re-authenticate the user has failed with the exception '',
              Repr e, Lit ''. Logging the user out...''] s1)
      | (Inr u, s1) \<Rightarrow> (Inr u, s1))"

subsection \<open>authenticate\<close>

definition basic_profile_url :: string where
  "basic_profile_url = ''https://scapi.rockstargames.com/profile/getbasicprofile''"

text \<open>\<^verbatim>\<open>resp_user_text['accounts'][0]['rockstarAccount']\<close>\<close>

definition rockstar_account :: "json \<Rightarrow> error + json" where
  "rockstar_account doc =
     (case py_index doc ''accounts'' of
        Inl e \<Rightarrow> Inl e
      | Inr accounts \<Rightarrow>
         (case py_index0 accounts of
            Inl e \<Rightarrow> Inl e
          | Inr first \<Rightarrow> py_index first ''rockstarAccount''))"

text \<open>The first step: the refresh, when the auth-lost slot is truthy or the debug flag is on.\<close>

definition refresh_if_lost :: "client \<Rightarrow> (error + unit) \<times> client" where
  "refresh_if_lost s =
     (if auth_lost_callback s \<noteq> None \<or> debug_always_refresh s then
        (case refresh_credentials s of
           (Inl e, s1) \<Rightarrow> (Inl e, s1)
         | (Inr u, s1) \<Rightarrow> (Inr (), s1\<lparr>auth_lost_callback := None\<rparr>))
      else (Inr (), s))"

text \<open>
  From the profile document to the end: the new user dict is a new object, which
  \<^verbatim>\<open>get_credentials\<close> then fills and the callback receives.
\<close>

definition set_user :: "json \<Rightarrow> client \<Rightarrow> (error + nat) \<times> client" where
  "set_user resp_user_text s =
     (let s1 = log_add DEBUG [Str resp_user_text] s in
      case rockstar_account resp_user_text of
        Inl e \<Rightarrow> (Inl e, s1)
      | Inr working_dict \<Rightarrow>
         (case py_index working_dict ''displayName'' of
            Inl e \<Rightarrow> (Inl e, s1)
          | Inr display_name \<Rightarrow>
             (case py_index working_dict ''rockstarId'' of
                Inl e \<Rightarrow> (Inl e, s1)
              | Inr rockstar_id \<Rightarrow>
                 (case str_plus ''ROCKSTAR_HTTP_CHECK: Got display name: '' display_name of
                    Inl e \<Rightarrow> (Inl e, s1)
                  | Inr m \<Rightarrow>
                     (let s2 = log_add DEBUG [Lit (m @ '' / Got Rockstar ID: ''), Str rockstar_id] s1;
                          a = next_ref s2;
                          s3 = s2\<lparr>heap := (heap s2)(a := [(''display_name'', PJson display_name),
                                                         (''rockstar_id'', PJson rockstar_id)]),
                                  next_ref := Suc a, user := Some a\<rparr>;
                          s4 = log_add DEBUG
                                 [Lit ''ROCKSTAR_STORE_CREDENTIALS: Preparing to store credentials...''] s3
                      in case get_credentials s4 of
                           (Inl e, s5) \<Rightarrow> (Inl e, s5)
                         | (Inr creds, s5) \<Rightarrow>
                            (let s6 = store_credentials creds s5 in
                             case user s6 of
                               None \<Rightarrow> (Inl TypeError, s6)
                             | Some u \<Rightarrow> (Inr u, s6)))))))"

definition authenticate :: "client \<Rightarrow> (error + nat) \<times> client" where
  "authenticate s =
     (case refresh_if_lost s of
        (Inl e, s1) \<Rightarrow> (Inl e, s1)
      | (Inr u, s1) \<Rightarrow>
         (case get_bearer s1 of
            (Inl e, s2) \<Rightarrow> (Inl e, s2)
          | (Inr b, s2) \<Rightarrow>
             (let s3 = s2\<lparr>bearer := Some b\<rparr> in
              case str_plus ''ROCKSTAR_HTTP_CHECK: Got bearer token: '' b of
                Inl e \<Rightarrow> (Inl e, s3)
              | Inr m \<Rightarrow>
                 (let s4 = log_add DEBUG [Lit m] s3 in
                  case fresh_get_json basic_profile_url s4 of
                    (Inl e, s5) \<Rightarrow>
                      (Inl e,
                       log_add ERROR
                         [Lit ''ERROR: There was a problem with getting the user information with the token. Exception: '',
                          Repr e] s5)
                  | (Inr resp_user_text, s5) \<Rightarrow> set_user resp_user_text s5))))"

subsection \<open>Requests with one more try\<close>

definition retry_warning :: "error \<Rightarrow> frag list" where
  "retry_warning e =
     [Lit ''WARNING: The request failed with exception '', Repr e,
      Lit ''. Attempting to refresh credentials...'']"

definition do_request :: "string \<Rightarrow> string \<Rightarrow> client \<Rightarrow> (error + response) \<times> client" where
  "do_request m url s =
     (case client_request m url s of
        (Inr r, s1) \<Rightarrow> (Inr r, s1)
      | (Inl e, s1) \<Rightarrow>
         (let s2 = log_add WARNING (retry_warning e) s1;
              s3 = set_auth_lost_callback (Some PyTrue) s2
          in case authenticate s3 of
               (Inl e2, s4) \<Rightarrow> (Inl e2, s4)
             | (Inr u, s4) \<Rightarrow> client_request m url s4))"

text \<open>
  \<^verbatim>\<open>get_json_from_request_strict\<close> calls itself in its \<^verbatim>\<open>except\<close> block. The first
  argument bounds the depth of these calls; the result is None when the bound is reached.
\<close>

fun get_json_from_request_strict ::
  "nat \<Rightarrow> string \<Rightarrow> bool \<Rightarrow> client \<Rightarrow> ((error + json) \<times> client) option" where
  "get_json_from_request_strict 0 url include_default_headers s = None"
| "get_json_from_request_strict (Suc d) url include_default_headers s =
     (case (if include_default_headers then get_bearer s else (Inr JNull, s)) of
        (Inl e, s1) \<Rightarrow> Some (Inl e, s1)
      | (Inr b, s1) \<Rightarrow>
         (case fresh_get_json url s1 of
            (Inr j, s2) \<Rightarrow> Some (Inr j, s2)
          | (Inl e, s2) \<Rightarrow>
             (let s3 = log_add WARNING (retry_warning e) s2;
                  s4 = set_auth_lost_callback (Some PyTrue) s3
              in case authenticate s4 of
                   (Inl e2, s5) \<Rightarrow> Some (Inl e2, s5)
                 | (Inr u, s5) \<Rightarrow> get_json_from_request_strict d url include_default_headers s5)))"

subsection \<open>Sample worlds\<close>

text \<open>Concrete states and providers on which the theorems below are run.\<close>

definition silent :: "nat \<Rightarrow> reply" where
  "silent n = Fails (RequestError ''offline'')"

definition with_session :: "jar \<Rightarrow> client \<Rightarrow> client" where
  "with_session j s = s\<lparr>current_session := Some \<lparr>cookies = j, max_redirects = 300\<rparr>\<rparr>"

definition rsso_a :: cookie where
  "rsso_a = \<lparr>cookie_name = ''rsso.1'', cookie_value = ''a'',
             cookie_domain = ''.rockstargames.com'', cookie_path = ''/''\<rparr>"

definition rsso_b :: cookie where
  "rsso_b = \<lparr>cookie_name = ''rsso.2'', cookie_value = ''b'',
             cookie_domain = ''signin.rockstargames.com'', cookie_path = ''/''\<rparr>"

text \<open>A provider that gives the listed replies in turn and then stops answering.\<close>

definition script :: "reply list \<Rightarrow> nat \<Rightarrow> reply" where
  "script rs n = (if n < length rs then rs ! n else Fails (RequestError ''offline''))"

definition sc_auth :: "string \<Rightarrow> cookie" where
  "sc_auth v = \<lparr>cookie_name = ''ScAuthTokenData'', cookie_value = v,
                cookie_domain = ''www.rockstargames.com'', cookie_path = ''/''\<rparr>"

definition ts_cookie :: cookie where
  "ts_cookie = \<lparr>cookie_name = ''TS019978c2'', cookie_value = ''ts'',
                cookie_domain = ''www.rockstargames.com'', cookie_path = ''/''\<rparr>"

definition profile_doc :: json where
  "profile_doc =
     JObj [(''user'', JObj
       [(''auth_token'', JObj [(''access_token'', JStr ''bearer''), (''refresh_token'', JStr ''r'')]),
        (''games_played'', JArr
           [JObj [(''id'', JStr ''A''), (''platform'', JStr ''PC'')],
            JObj [(''id'', JStr ''B''), (''platform'', JStr ''PS4'')],
            JObj [(''id'', JStr ''C''), (''platform'', JStr ''PC'')]])])]"

definition basic_doc :: json where
  "basic_doc =
     JObj [(''accounts'', JArr
       [JObj [(''rockstarAccount'', JObj [(''displayName'', JStr ''Niko''), (''rockstarId'', JNum 42)])]])]"

text \<open>The replies of a provider that is content: the profile document (the auth-token
  cookie left as it is), the basic profile, and the two answers of the refresh protocol,
  the second of which sets a new auth-token cookie.\<close>

definition profile_ok :: reply where
  "profile_ok = Answers [] [] (Some profile_doc)"

definition basic_ok :: reply where
  "basic_ok = Answers [] [] (Some basic_doc)"

definition cors_ok :: reply where
  "cors_ok = Answers [] ''code'' None"

definition login_ok :: "string \<Rightarrow> reply" where
  "login_ok v = Answers [sc_auth v] [] (Some (JObj []))"

definition down :: reply where
  "down = Fails (RequestError ''timeout'')"

text \<open>A client that has logged in through the browser: a session with the three cookies,
  the auth token cached, a refresh token and a fingerprint set at time 0.\<close>

definition logged_in :: "(nat \<Rightarrow> reply) \<Rightarrow> client" where
  "logged_in p =
     set_fingerprint (Some ''fp'')
       (set_refresh_token (Some ''rmt'')
         (set_current_auth_token (Some ''SECRET-TOKEN-0001'')
           (with_session [sc_auth ''SECRET-TOKEN-0001'', rsso_a, ts_cookie] (init 0 p))))"

subsection \<open>Observations on a run\<close>

text \<open>
  \<open>attempts c s\<close> counts how often the call \<open>c\<close> has been issued. \<open>client_requests\<close>
  are the calls issued through the host's HTTP client. \<open>token_rotates s\<close> says that a
  profile fetch started in \<open>s\<close> gets as far as comparing the auth-token cookie before
  and after the request, and finds the two values different.
\<close>

definition attempts :: "call \<Rightarrow> client \<Rightarrow> nat" where
  "attempts c s = count_list (sent s) c"

fun is_client_request :: "call \<Rightarrow> bool" where
  "is_client_request (ClientRequest m url) = True"
| "is_client_request _ = False"

definition client_requests :: "client \<Rightarrow> call list" where
  "client_requests s = filter is_client_request (sent s)"

definition token_rotates :: "client \<Rightarrow> bool" where
  "token_rotates s =
     (case current_session s of
        None \<Rightarrow> False
      | Some ss \<Rightarrow>
         (case jar_get (cookies ss) ''ScAuthTokenData'' of
            Inl e \<Rightarrow> False
          | Inr old_auth \<Rightarrow>
             current_auth_token s \<noteq> None \<and>
             (case provider s (length (sent s)) of
                Fails e \<Rightarrow> False
              | Answers cs text js \<Rightarrow>
                 (case jar_get (fold jar_set cs (cookies ss)) ''ScAuthTokenData'' of
                    Inl e \<Rightarrow> False
                  | Inr new_auth \<Rightarrow> new_auth \<noteq> old_auth))))"

text \<open>The fields that only \<^verbatim>\<open>authenticate\<close> and the setters write, together with
  the requests of the host's client issued so far.\<close>

definition auth_view :: "client \<Rightarrow> callback option \<times> nat option \<times> bool \<times> (nat \<Rightarrow> reply) \<times> call list" where
  "auth_view s =
     (auth_lost_callback s, user s, debug_always_refresh s, provider s, client_requests s)"

text \<open>Two runs of \<^verbatim>\<open>do_request\<close>: the request fails, the client re-authenticates and the
  request fails again; and the request fails and the provider's sign-in endpoint is
  unreachable as well.\<close>

definition retry_world :: client where
  "retry_world =
     logged_in (script [down, cors_ok, login_ok ''SECRET-TOKEN-0002'', profile_ok, basic_ok,
                        Fails (RequestError ''second'')])"

definition auth_down_world :: client where
  "auth_down_world = logged_in (script [down, Fails (RequestError ''signin unreachable'')])"

text \<open>Runs of \<^verbatim>\<open>authenticate\<close>: twice in a row with an auth token that stays the same; once,
  followed by a profile fetch whose response sets a new auth-token cookie; and once,
  followed by a refresh that succeeds and a profile fetch that times out.\<close>

definition twice_world :: client where
  "twice_world = logged_in (script [profile_ok, basic_ok, profile_ok, basic_ok])"

definition rotating_world :: client where
  "rotating_world =
     logged_in (script [profile_ok, basic_ok,
                        Answers [sc_auth ''SECRET-TOKEN-0002''] [] (Some profile_doc)])"

definition half_world :: client where
  "half_world =
     logged_in (script [profile_ok, basic_ok, cors_ok, login_ok ''SECRET-TOKEN-0002'', down])"

text \<open>
  The words of the specification of \<^verbatim>\<open>get_played_games\<close>: an entry is a PC entry when its
  platform is the string PC, \<open>id_of\<close> is its id when it has one, and an entry is well
  formed when it is a dict with a platform and, if a PC entry, with an id.
\<close>

definition is_pc :: "json \<Rightarrow> bool" where
  "is_pc game \<longleftrightarrow> py_index game ''platform'' = Inr (JStr ''PC'')"

definition id_of :: "json \<Rightarrow> json option" where
  "id_of game = (case py_index game ''id'' of Inl e \<Rightarrow> None | Inr i \<Rightarrow> Some i)"

definition well_formed_game :: "json \<Rightarrow> bool" where
  "well_formed_game game \<longleftrightarrow>
     (case py_index game ''platform'' of
        Inl e \<Rightarrow> False
      | Inr p \<Rightarrow> p \<noteq> JStr ''PC'' \<or> id_of game \<noteq> None)"

text \<open>A client whose provider answers one profile fetch.\<close>

definition games_world :: client where
  "games_world = logged_in (script [profile_ok])"

text \<open>The keys that \<^verbatim>\<open>get_credentials\<close> assigns.\<close>

definition credential_keys :: "string set" where
  "credential_keys = {''session_object'', ''current_auth_token'', ''refresh_token'', ''fingerprint''}"

text \<open>A refresh that succeeds, and a run of \<^verbatim>\<open>get_json_from_request_strict\<close> in which
  the request fails twice, each failure followed by a re-authentication that succeeds,
  and is answered at the third attempt.\<close>

definition refresh_world :: client where
  "refresh_world = logged_in (script [cors_ok, login_ok ''SECRET-TOKEN-0002''])"

definition api_url :: string where
  "api_url = ''https://scapi.rockstargames.com/friends/getFriendsFiltered''"

definition strict_world :: client where
  "strict_world =
     logged_in (script
       [profile_ok, down,
        cors_ok, login_ok ''SECRET-TOKEN-0002'', profile_ok, basic_ok,
        profile_ok, down,
        cors_ok, login_ok ''SECRET-TOKEN-0003'', profile_ok, basic_ok,
        profile_ok, Answers [] [] (Some JNull)])"

section \<open>Properties\<close>

subsection \<open>Float addition\<close>




lemma ulp_binade:
  assumes "2 ^ n \<le> x" and "x < 2 ^ Suc n"
  shows "ulp x = 2 powr (real n - 52)"
proof -
  have x: "0 < x" using assms(1) by (smt (verit) zero_less_power)
  have "\<lfloor>Transcendental.log 2 x\<rfloor> = int n"
    using assms x by (subst floor_log_eq_powr_iff) (auto simp: powr_realpow powr_add)
  then show ?thesis using x by (simp add: ulp_def)
qed

text \<open>Twenty years after time 0: the sum is a double, nothing is rounded.\<close>

lemma twenty_years_from_zero: "double_add 0 630720000 = 630720000"
proof -
  have u: "ulp 630720000 = 2 powr (real 29 - 52)"
    by (rule ulp_binade) simp_all
  have u': "ulp 630720000 = 1 / 2 ^ 23"
    unfolding u by (simp add: powr_minus field_simps)
  show ?thesis
    by (simp add: double_add_def double_round_def u' round_even_def)
qed


subsection \<open>Token expiry\<close>

lemma expired_known: "tok_expires tk = Some e \<Longrightarrow> expired tk now = Inr (e \<le> now)"
  by (simp add: expired_def)

text \<open>
  C4. The expired predicate of a token box is meant to be false, and not to fail, when
  the expiry instant is None. In the code the comparison of None with the clock raises:
  the predicate fails on a freshly constructed box and on a box that
  \<^verbatim>\<open>get_refresh_token\<close> has cleared, and so does \<^verbatim>\<open>get_refresh_token\<close> on a new client.
  With an expiry instant set, the predicate is true exactly from that instant on.
\<close>

theorem expired_fresh_token_raises:
  "expired new_token now = Inl TypeError \<and>
   expired (set_token None None tk) now = Inl TypeError \<and>
   fst (get_refresh_token (init now p)) = Inl TypeError \<and>
   expired (set_token t (Some e) tk) now = Inr (e \<le> now)"
  by (simp add: expired_def new_token_def set_token_def get_refresh_token_def init_def)






subsection \<open>Rotation of the rsso cookie\<close>

lemma fold_del_rsso:
  "fold (\<lambda>old acc. if is_rsso (cookie_name old) then jar_del (cookie_name old) acc else acc) xs acc
   = filter (\<lambda>c. \<not> (\<exists>x \<in> set xs. is_rsso (cookie_name x) \<and> cookie_name x = cookie_name c)) acc"
proof (induction xs arbitrary: acc)
  case Nil
  then show ?case by simp
next
  case (Cons x xs)
  show ?case
    by (auto simp: Cons.IH jar_del_def intro!: filter_cong)
qed

lemma del_old_rsso_eq: "del_old_rsso j = filter (\<lambda>c. \<not> is_rsso (cookie_name c)) j"
  unfolding del_old_rsso_def fold_del_rsso
  by (rule filter_cong) auto

lemma filter_rsso_jar_del:
  "filter (\<lambda>c. is_rsso (cookie_name c)) j = [] \<Longrightarrow>
   filter (\<lambda>c. is_rsso (cookie_name c)) (jar_del n j) = []"
  by (auto simp: jar_del_def filter_empty_conv)

lemma filter_rsso_jar_set:
  "filter (\<lambda>c. is_rsso (cookie_name c)) j = [] \<Longrightarrow> is_rsso (cookie_name c) \<Longrightarrow>
   filter (\<lambda>c. is_rsso (cookie_name c)) (jar_set c j) = [c]"
  by (induction j) (auto simp: same_slot_def)

lemma update_cookie_rsso:
  assumes "current_session s = Some ss" and "is_rsso (cookie_name c)"
  shows "\<exists>ss'. update_cookie c s = (Inr (), s\<lparr>current_session := Some ss'\<rparr>) \<and>
               filter (\<lambda>d. is_rsso (cookie_name d)) (cookies ss') = [c]"
proof -
  let ?j = "jar_set c (jar_del (cookie_name c) (del_old_rsso (cookies ss)))"
  have "filter (\<lambda>d. is_rsso (cookie_name d)) (del_old_rsso (cookies ss)) = []"
    by (simp add: del_old_rsso_eq filter_empty_conv)
  then have "filter (\<lambda>d. is_rsso (cookie_name d)) ?j = [c]"
    using assms(2) by (simp add: filter_rsso_jar_set filter_rsso_jar_del)
  moreover have "update_cookie c s = (Inr (), s\<lparr>current_session := Some (ss\<lparr>cookies := ?j\<rparr>)\<rparr>)"
    using assms by (simp add: update_cookie_def Let_def)
  ultimately show ?thesis
    by (intro exI [of _ "ss\<lparr>cookies := ?j\<rparr>"]) simp
qed

text \<open>
  C6. On a client that has a session, two calls of \<^verbatim>\<open>update_cookie\<close> with cookies
  whose names start with rsso both succeed, and afterwards the cookies of the session
  whose names start with rsso are exactly the second cookie, whatever the collection
  held before.
\<close>

theorem rsso_cookie_rotation:
  assumes "current_session s = Some ss"
    and "is_rsso (cookie_name c1)" and "is_rsso (cookie_name c2)"
  shows "fst (update_cookie c1 s) = Inr () \<and>
         fst (update_cookie c2 (snd (update_cookie c1 s))) = Inr () \<and>
         map_option (\<lambda>x. filter (\<lambda>d. is_rsso (cookie_name d)) (cookies x))
           (current_session (snd (update_cookie c2 (snd (update_cookie c1 s))))) = Some [c2]"
proof -
  obtain ss1 where 1: "update_cookie c1 s = (Inr (), s\<lparr>current_session := Some ss1\<rparr>)"
    using update_cookie_rsso [OF assms(1,2)] by blast
  have "current_session (s\<lparr>current_session := Some ss1\<rparr>) = Some ss1" by simp
  from update_cookie_rsso [OF this assms(3)] obtain ss2 where
    2: "update_cookie c2 (s\<lparr>current_session := Some ss1\<rparr>)
          = (Inr (), s\<lparr>current_session := Some ss1\<rparr>\<lparr>current_session := Some ss2\<rparr>)"
    and 3: "filter (\<lambda>d. is_rsso (cookie_name d)) (cookies ss2) = [c2]"
    by blast
  show ?thesis by (simp add: 1 2 3)
qed

theorem rsso_cookie_rotation_witness:
  "map_option (\<lambda>x. filter (\<lambda>d. is_rsso (cookie_name d)) (cookies x))
     (current_session (snd (update_cookie rsso_b (snd (update_cookie rsso_a
        (with_session [] (init 0 silent))))))) = Some [rsso_b]"
  using rsso_cookie_rotation [of "with_session [] (init 0 silent)"
          "\<lparr>cookies = [], max_redirects = 300\<rparr>" rsso_a rsso_b]
  by (simp add: with_session_def is_rsso_def rsso_a_def rsso_b_def)

subsection \<open>What the steps leave alone\<close>

lemma log_add_fields [simp]:
  "auth_lost_callback (log_add l m s) = auth_lost_callback s"
  "user (log_add l m s) = user s"
  "debug_always_refresh (log_add l m s) = debug_always_refresh s"
  "provider (log_add l m s) = provider s"
  "sent (log_add l m s) = sent s"
  "heap (log_add l m s) = heap s"
  "next_ref (log_add l m s) = next_ref s"
  "current_session (log_add l m s) = current_session s"
  "current_auth_token (log_add l m s) = current_auth_token s"
  "refresh_token (log_add l m s) = refresh_token s"
  "fingerprint (log_add l m s) = fingerprint s"
  "clock (log_add l m s) = clock s"
  by (simp_all add: log_add_def)

lemma client_requests_updates [simp]:
  "client_requests (log_add l m s) = client_requests s"
  "client_requests (s\<lparr>auth_lost_callback := cb\<rparr>) = client_requests s"
  "client_requests (s\<lparr>bearer := b\<rparr>) = client_requests s"
  by (simp_all add: client_requests_def log_add_def)

lemma auth_view_updates [simp]:
  "auth_view (log_add l m s) = auth_view s"
  "auth_view (set_refresh_token t s) = auth_view s"
  "auth_view (store_credentials a s) = auth_view s"
  "auth_view (s\<lparr>current_auth_token := tk\<rparr>) = auth_view s"
  "auth_view (s\<lparr>current_session := ss\<rparr>) = auth_view s"
  "auth_view (s\<lparr>bearer := b\<rparr>) = auth_view s"
  "auth_view (s\<lparr>refresh := b\<rparr>) = auth_view s"
  "auth_view (s\<lparr>refresh_token := rt\<rparr>) = auth_view s"
  "auth_view (s\<lparr>heap := h\<rparr>) = auth_view s"
  by (simp_all add: auth_view_def client_requests_def log_add_def set_refresh_token_def
        store_credentials_def Let_def)

lemma stored_updates [simp]:
  "stored (log_add l m s) = stored s"
  "stored (set_refresh_token t s) = stored s"
  by (simp_all add: log_add_def set_refresh_token_def Let_def)

lemma session_call_frame:
  "session_call c s = (r, s') \<Longrightarrow> \<not> is_client_request c \<Longrightarrow>
     auth_view s' = auth_view s \<and> stored s' = stored s"
  by (auto simp: session_call_def next_reply_def auth_view_def client_requests_def
           split: option.splits reply.splits)

lemma fresh_get_json_frame:
  "fresh_get_json url s = (r, s') \<Longrightarrow> auth_view s' = auth_view s \<and> stored s' = stored s"
  by (auto simp: fresh_get_json_def next_reply_def auth_view_def client_requests_def
           split: reply.splits)

lemma get_credentials_frame:
  "get_credentials s = (r, s') \<Longrightarrow> auth_view s' = auth_view s \<and> stored s' = stored s"
  by (auto simp: get_credentials_def split: option.splits)

lemma get_refresh_token_frame:
  "get_refresh_token s = (r, s') \<Longrightarrow> auth_view s' = auth_view s \<and> stored s' = stored s"
  by (auto simp: get_refresh_token_def Let_def split: sum.splits bool.splits if_splits)

subsection \<open>Frame of the profile fetch\<close>

lemma get_user_json_try_view:
  "get_user_json_try s = (r, s') \<Longrightarrow> auth_view s' = auth_view s"
  unfolding get_user_json_try_def Let_def
  by (auto split: sum.splits option.splits prod.splits if_splits
           dest!: session_call_frame get_credentials_frame)


lemma get_user_json_try_stored:
  "get_user_json_try s = (r, s') \<Longrightarrow>
     length (stored s') = length (stored s) + (if token_rotates s \<and> user s \<noteq> None then 1 else 0)"
  unfolding get_user_json_try_def Let_def token_rotates_def session_cookie_def session_call_def
    next_reply_def get_credentials_def store_credentials_def log_add_def
  by (auto split: sum.splits option.splits prod.splits if_splits reply.splits)

lemma get_user_json_frame:
  "get_user_json m s = (r, s') \<Longrightarrow>
     auth_view s' = auth_view s \<and>
     length (stored s') = length (stored s) + (if token_rotates s \<and> user s \<noteq> None then 1 else 0)"
  unfolding get_user_json_def
  by (auto split: sum.splits prod.splits
           dest: get_user_json_try_view get_user_json_try_stored)

lemma get_bearer_frame:
  "get_bearer s = (r, s') \<Longrightarrow>
     auth_view s' = auth_view s \<and>
     length (stored s') = length (stored s) + (if token_rotates s \<and> user s \<noteq> None then 1 else 0)"
  unfolding get_bearer_def get_bearer_try_def Let_def
  by (auto split: sum.splits prod.splits dest!: get_user_json_frame)

lemma get_played_games_frame:
  "get_played_games s = (r, s') \<Longrightarrow>
     auth_view s' = auth_view s \<and>
     length (stored s') = length (stored s) + (if token_rotates s \<and> user s \<noteq> None then 1 else 0)"
  unfolding get_played_games_def get_played_games_try_def
  by (auto split: sum.splits prod.splits dest!: get_user_json_frame)

subsection \<open>Frame of the refresh\<close>

lemma take_rmt_frame:
  "take_rmt s = (r, s') \<Longrightarrow> auth_view s' = auth_view s \<and> stored s' = stored s"
  unfolding take_rmt_def
  by (auto split: option.splits sum.splits if_splits)

lemma login_with_code_frame:
  "login_with_code code s = (r, s') \<Longrightarrow> auth_view s' = auth_view s \<and> stored s' = stored s"
  unfolding login_with_code_def Let_def
  by (auto split: option.splits sum.splits prod.splits if_splits dest!: session_call_frame)

lemma refresh_cookie_header_frame:
  "refresh_cookie_header n d s = (r, s') \<Longrightarrow> auth_view s' = auth_view s \<and> stored s' = stored s"
  unfolding refresh_cookie_header_def
  by (auto split: option.splits sum.splits prod.splits dest!: get_refresh_token_frame)

lemma refresh_credentials_frame:
  "refresh_credentials s = (r, s') \<Longrightarrow> auth_view s' = auth_view s \<and> stored s' = stored s"
  unfolding refresh_credentials_def refresh_credentials_try_def Let_def
  by (auto split: option.splits sum.splits prod.splits
           dest!: refresh_cookie_header_frame session_call_frame take_rmt_frame login_with_code_frame)


subsection \<open>Frame of authenticate\<close>

lemma refresh_if_lost_frame:
  "refresh_if_lost s = (r, s1) \<Longrightarrow>
     user s1 = user s \<and> stored s1 = stored s \<and> client_requests s1 = client_requests s \<and>
     provider s1 = provider s \<and> debug_always_refresh s1 = debug_always_refresh s \<and>
     (case r of Inr u \<Rightarrow> auth_lost_callback s1 = None
              | Inl e \<Rightarrow> auth_lost_callback s1 = auth_lost_callback s)"
  unfolding refresh_if_lost_def
  by (auto simp: auth_view_def split: if_splits prod.splits sum.splits
           dest!: refresh_credentials_frame)

lemma set_user_frame:
  "set_user doc s = (r, s') \<Longrightarrow>
     auth_lost_callback s' = auth_lost_callback s \<and> client_requests s' = client_requests s \<and>
     (case r of
        Inr u \<Rightarrow> user s' = Some u \<and> stored s' = stored s @ [(u, heap s' u)]
      | Inl e \<Rightarrow> user s' = user s \<and> stored s' = stored s)"
  unfolding set_user_def Let_def get_credentials_def store_credentials_def log_add_def
  by (auto simp: client_requests_def split: sum.splits prod.splits option.splits)

lemma authenticate_frame:
  assumes "authenticate s = (r, s')"
  shows "client_requests s' = client_requests s"
    and "length (stored s') = length (stored s)
           + (if \<not> isl (fst (refresh_if_lost s)) \<and> token_rotates (snd (refresh_if_lost s)) \<and> user s \<noteq> None
              then 1 else 0)
           + (if isl r then 0 else 1)"
    and "\<not> isl r \<Longrightarrow> auth_lost_callback s' = None \<and> user s' = Some (projr r)"
  using assms
  unfolding authenticate_def Let_def
  by (auto simp: auth_view_def split: sum.splits prod.splits
           dest!: refresh_if_lost_frame get_bearer_frame fresh_get_json_frame set_user_frame)

subsection \<open>Running the samples\<close>

text \<open>The definitions that the simplifier unfolds to run a method on a sample world.\<close>

lemmas sample_defs = script_def sc_auth_def ts_cookie_def profile_doc_def basic_doc_def
  profile_ok_def basic_ok_def cors_ok_def login_ok_def down_def logged_in_def
  with_session_def rsso_a_def init_def new_token_def silent_def
  set_fingerprint_def set_refresh_token_def set_current_auth_token_def set_token_def
  twenty_years_from_zero

lemmas fetch_defs = get_user_json_def get_user_json_try_def session_cookie_def jar_get_def
  log_add_def session_call_def next_reply_def resp_json_def redact_def get_user_url_def
  get_credentials_def store_credentials_def Let_def

lemmas refresh_defs = refresh_credentials_def refresh_credentials_try_def find_rsso_def
  refresh_cookie_header_def get_refresh_token_def expired_def get_token_def is_rsso_def
  cors_check_url_def login_url_def take_rmt_def jar_contains_def jar_del_def
  login_with_code_def same_slot_def

lemmas auth_defs = authenticate_def refresh_if_lost_def get_bearer_def get_bearer_try_def
  auth_token_field_def fresh_get_json_def basic_profile_url_def set_user_def rockstar_account_def

lemmas request_defs = do_request_def client_request_def retry_warning_def
  set_auth_lost_callback_def attempts_def

subsection \<open>One retry in \<^verbatim>\<open>do_request\<close>\<close>

lemma count_client_requests:
  "count_list (sent s) (ClientRequest m url) = count_list (client_requests s) (ClientRequest m url)"
proof -
  have "count_list (filter is_client_request xs) (ClientRequest m url) = count_list xs (ClientRequest m url)"
    for xs by (induction xs) auto
  then show ?thesis by (simp add: client_requests_def)
qed

lemma attempts_client_request:
  "client_request m url s = (r, s1) \<Longrightarrow>
     attempts (ClientRequest m url) s1 = Suc (attempts (ClientRequest m url) s)"
  by (auto simp: client_request_def next_reply_def attempts_def split: reply.splits)

lemma attempts_authenticate:
  "authenticate s = (r, s') \<Longrightarrow> attempts (ClientRequest m url) s' = attempts (ClientRequest m url) s"
  by (simp add: attempts_def count_client_requests authenticate_frame(1))

text \<open>
  C1, as the code has it. When the first attempt of \<^verbatim>\<open>do_request\<close> succeeds, its response
  is returned after one attempt. When it fails, the auth-lost slot is set to True and
  \<^verbatim>\<open>authenticate\<close> is called in that state. If \<^verbatim>\<open>authenticate\<close> returns, the request is
  issued exactly once more and the caller receives whatever that second attempt gives:
  its response, or its failure and not the first one. If \<^verbatim>\<open>authenticate\<close> raises, the
  caller receives that failure and the request is not issued again. In no case is the
  request attempted more than twice.
\<close>

theorem do_request_retries_once_after_authenticate:
  "(client_request m url s = (Inr resp, sa) \<longrightarrow>
      do_request m url s = (Inr resp, sa) \<and>
      attempts (ClientRequest m url) (snd (do_request m url s)) = attempts (ClientRequest m url) s + 1) \<and>
   (client_request m url s = (Inl e, sa) \<and>
    sb = set_auth_lost_callback (Some PyTrue) (log_add WARNING (retry_warning e) sa) \<longrightarrow>
      auth_lost_callback sb = Some PyTrue \<and>
      (authenticate sb = (Inr u, sc) \<longrightarrow>
         do_request m url s = client_request m url sc \<and>
         attempts (ClientRequest m url) (snd (do_request m url s)) = attempts (ClientRequest m url) s + 2) \<and>
      (authenticate sb = (Inl e2, sc) \<longrightarrow>
         do_request m url s = (Inl e2, sc) \<and>
         attempts (ClientRequest m url) (snd (do_request m url s)) = attempts (ClientRequest m url) s + 1))"
proof (intro conjI impI; (elim conjE)?)
  assume "client_request m url s = (Inr resp, sa)"
  then show "do_request m url s = (Inr resp, sa)"
    and "attempts (ClientRequest m url) (snd (do_request m url s)) = attempts (ClientRequest m url) s + 1"
    by (simp_all add: do_request_def attempts_client_request)
next
  assume 1: "client_request m url s = (Inl e, sa)"
    and 3: "sb = set_auth_lost_callback (Some PyTrue) (log_add WARNING (retry_warning e) sa)"
  show "auth_lost_callback sb = Some PyTrue"
    by (simp add: 3 set_auth_lost_callback_def)
  have a3: "attempts (ClientRequest m url) sb = Suc (attempts (ClientRequest m url) s)"
    using attempts_client_request [OF 1] by (simp add: 3 attempts_def set_auth_lost_callback_def)
  {
    assume 4: "authenticate sb = (Inr u, sc)"
    show d: "do_request m url s = client_request m url sc"
      using 1 3 4 by (simp add: do_request_def Let_def)
    have "attempts (ClientRequest m url) (snd (client_request m url sc))
            = Suc (attempts (ClientRequest m url) sc)"
      using attempts_client_request [of m url sc] by (metis prod.collapse)
    then show "attempts (ClientRequest m url) (snd (do_request m url s)) = attempts (ClientRequest m url) s + 2"
      using attempts_authenticate [OF 4] a3 by (simp add: d)
  }
  {
    assume 4: "authenticate sb = (Inl e2, sc)"
    show d: "do_request m url s = (Inl e2, sc)"
      using 1 3 4 by (simp add: do_request_def Let_def)
    show "attempts (ClientRequest m url) (snd (do_request m url s)) = attempts (ClientRequest m url) s + 1"
      using attempts_authenticate [OF 4] a3 by (simp add: d)
  }
qed

lemma retry_world_first:
  "client_request ''GET'' ''u'' retry_world
     = (Inl (RequestError ''timeout''), snd (client_request ''GET'' ''u'' retry_world))"
  by (simp add: retry_world_def sample_defs request_defs next_reply_def)

theorem do_request_retries_once_witness:
  "fst (do_request ''GET'' ''u'' retry_world) = Inl (RequestError ''second'') \<and>
   attempts (ClientRequest ''GET'' ''u'') (snd (do_request ''GET'' ''u'' retry_world)) = 2"
proof -
  define s1 where "s1 = snd (client_request ''GET'' ''u'' retry_world)"
  define s3 where "s3 = set_auth_lost_callback (Some PyTrue)
                          (log_add WARNING (retry_warning (RequestError ''timeout'')) s1)"
  define s4 where "s4 = snd (authenticate s3)"
  have 1: "client_request ''GET'' ''u'' retry_world = (Inl (RequestError ''timeout''), s1)"
    unfolding s1_def by (rule retry_world_first)
  have 4: "authenticate s3 = (Inr 0, s4)"
    unfolding s4_def s3_def s1_def
    by (simp add: retry_world_def sample_defs request_defs fetch_defs refresh_defs auth_defs)
  have 5: "fst (client_request ''GET'' ''u'' s4) = Inl (RequestError ''second'')"
    unfolding s4_def s3_def s1_def
    by (simp add: retry_world_def sample_defs request_defs fetch_defs refresh_defs auth_defs)
  have 0: "attempts (ClientRequest ''GET'' ''u'') retry_world = 0"
    by (simp add: retry_world_def sample_defs attempts_def)
  from do_request_retries_once_after_authenticate
         [where m = "''GET''" and url = "''u''" and s = retry_world and sa = s1
            and e = "RequestError ''timeout''" and sb = s3 and u = 0 and sc = s4]
  have d: "do_request ''GET'' ''u'' retry_world = client_request ''GET'' ''u'' s4"
    and a: "attempts (ClientRequest ''GET'' ''u'') (snd (do_request ''GET'' ''u'' retry_world))
              = attempts (ClientRequest ''GET'' ''u'') retry_world + 2"
    using 1 4 s3_def by blast+
  show ?thesis using 5 0 by (simp add: d a [unfolded d])
qed

text \<open>
  C1 as stated asks for exactly one retry after every failed first attempt. When the
  re-authentication itself fails there is none: the request was sent once, and the caller
  receives the failure of \<^verbatim>\<open>authenticate\<close>, which is neither the first nor a second failure
  of the request.
\<close>

theorem do_request_counterexample:
  "fst (client_request ''GET'' ''u'' auth_down_world) = Inl (RequestError ''timeout'') \<and>
   fst (do_request ''GET'' ''u'' auth_down_world) = Inl (RequestError ''signin unreachable'') \<and>
   sent (snd (do_request ''GET'' ''u'' auth_down_world))
     = [ClientRequest ''GET'' ''u'', SessionPost cors_check_url]"
  by (simp add: auth_down_world_def sample_defs request_defs fetch_defs refresh_defs auth_defs)

subsection \<open>Invocations of the store-credentials callback\<close>

lemma stored_frames:
  "stored (set_auth_lost_callback cb s) = stored s"
  "stored (set_current_auth_token t s) = stored s"
  "stored (set_fingerprint f s) = stored s"
  "stored (set_refresh_token_absolute tk s) = stored s"
  "stored (snd (update_cookie c s)) = stored s"
  "stored (snd (client_request m url s)) = stored s"
  by (simp_all add: set_auth_lost_callback_def set_current_auth_token_def set_fingerprint_def
        set_refresh_token_absolute_def update_cookie_def client_request_def next_reply_def Let_def
        split: option.splits reply.splits)

text \<open>
  C3, as the code has it. The callback is invoked at the end of every \<^verbatim>\<open>authenticate\<close>
  that succeeds, the first or a later one, and in every profile fetch that finds the
  auth-token cookie changed while a user is set (a fetch made by \<^verbatim>\<open>_get_user_json\<close>,
  \<^verbatim>\<open>_get_bearer\<close>, \<^verbatim>\<open>get_played_games\<close> or inside \<^verbatim>\<open>authenticate\<close>). So a call of
  \<^verbatim>\<open>authenticate\<close> adds one invocation for such a fetch, if its refresh step passes, and
  one more if it succeeds; a profile fetch adds one or none; the refresh, the reading of
  the credentials or of the refresh token, the cookie update, a request of the host's
  client and the setters add none.
\<close>

theorem store_credentials_occasions:
  "(authenticate s = (r, s') \<longrightarrow>
      length (stored s') = length (stored s)
        + (if \<not> isl (fst (refresh_if_lost s)) \<and> token_rotates (snd (refresh_if_lost s)) \<and> user s \<noteq> None
           then 1 else 0)
        + (if isl r then 0 else 1)) \<and>
   (get_user_json msg s = (r2, s2) \<longrightarrow>
      length (stored s2) = length (stored s) + (if token_rotates s \<and> user s \<noteq> None then 1 else 0)) \<and>
   (get_bearer s = (r3, s3) \<longrightarrow>
      length (stored s3) = length (stored s) + (if token_rotates s \<and> user s \<noteq> None then 1 else 0)) \<and>
   (get_played_games s = (r4, s4) \<longrightarrow>
      length (stored s4) = length (stored s) + (if token_rotates s \<and> user s \<noteq> None then 1 else 0)) \<and>
   stored (snd (refresh_credentials s)) = stored s \<and>
   stored (snd (get_credentials s)) = stored s \<and>
   stored (snd (get_refresh_token s)) = stored s \<and>
   stored (snd (update_cookie c s)) = stored s \<and>
   stored (snd (client_request m url s)) = stored s \<and>
   stored (set_refresh_token t s) = stored s \<and>
   stored (set_auth_lost_callback cb s) = stored s \<and>
   stored (set_current_auth_token t s) = stored s \<and>
   stored (set_fingerprint t s) = stored s"
proof -
  have "stored (snd (refresh_credentials s)) = stored s"
    using refresh_credentials_frame [of s] by (metis prod.collapse)
  moreover have "stored (snd (get_credentials s)) = stored s"
    using get_credentials_frame [of s] by (metis prod.collapse)
  moreover have "stored (snd (get_refresh_token s)) = stored s"
    using get_refresh_token_frame [of s] by (metis prod.collapse)
  ultimately show ?thesis
    using authenticate_frame(2) [of s r s'] get_user_json_frame [of msg s r2 s2]
      get_bearer_frame [of s r3 s3] get_played_games_frame [of s r4 s4]
    by (simp add: stored_frames)
qed


theorem store_credentials_occasions_witness:
  "length (stored (snd (authenticate twice_world))) = 1 \<and>
   length (stored (snd (get_user_json None (snd (authenticate rotating_world))))) = 2"
proof -
  have a: "\<not> isl (fst (authenticate twice_world))" "\<not> token_rotates (snd (refresh_if_lost twice_world))"
    "length (stored twice_world) = 0"
    by (simp_all add: twice_world_def sample_defs fetch_defs auth_defs token_rotates_def)
  have b: "token_rotates (snd (authenticate rotating_world))"
    "user (snd (authenticate rotating_world)) \<noteq> None"
    "length (stored (snd (authenticate rotating_world))) = 1"
    by (simp_all add: rotating_world_def sample_defs fetch_defs auth_defs token_rotates_def same_slot_def)
  show ?thesis
    using a b
      store_credentials_occasions [where s = twice_world and r = "fst (authenticate twice_world)"
        and s' = "snd (authenticate twice_world)"]
      store_credentials_occasions [where s = "snd (authenticate rotating_world)" and msg = None
        and ?r2.0 = "fst (get_user_json None (snd (authenticate rotating_world)))"
        and ?s2.0 = "snd (get_user_json None (snd (authenticate rotating_world)))"]
    by simp
qed

text \<open>
  C3 as stated allows the callback only on the first successful \<^verbatim>\<open>authenticate\<close> and on
  a rotation of the auth token. A second successful \<^verbatim>\<open>authenticate\<close>, in which the token
  does not rotate, invokes it again.
\<close>

theorem store_on_second_authenticate:
  "fst (authenticate twice_world) = Inr 0 \<and>
   length (stored (snd (authenticate twice_world))) = 1 \<and>
   \<not> token_rotates (snd (authenticate twice_world)) \<and>
   fst (authenticate (snd (authenticate twice_world))) = Inr 1 \<and>
   length (stored (snd (authenticate (snd (authenticate twice_world))))) = 2"
  by (simp add: twice_world_def sample_defs fetch_defs auth_defs token_rotates_def)

subsection \<open>The answer of \<^verbatim>\<open>is_authenticated\<close>\<close>

lemma authenticate_flag:
  "authenticate s = (r, s') \<Longrightarrow>
     auth_lost_callback s' = (if isl (fst (refresh_if_lost s)) then auth_lost_callback s else None)"
  unfolding authenticate_def Let_def
  by (auto simp: auth_view_def split: sum.splits prod.splits
           dest!: refresh_if_lost_frame get_bearer_frame fresh_get_json_frame set_user_frame)

text \<open>
  C7, as the code has it. \<^verbatim>\<open>is_authenticated\<close> is true exactly when a user is set and
  the auth-lost slot is None. It is false on a new client, true after an
  \<^verbatim>\<open>authenticate\<close> that succeeds, and false as soon as the auth-lost slot is set. A call
  of \<^verbatim>\<open>authenticate\<close> whose refresh step fails leaves the slot and the user as they
  were; once the refresh step has passed the slot is None, whether \<^verbatim>\<open>authenticate\<close>
  then succeeds or fails.
\<close>

theorem is_authenticated_states:
  "(is_authenticated s \<longleftrightarrow> user s \<noteq> None \<and> auth_lost_callback s = None) \<and>
   \<not> is_authenticated (init now p) \<and>
   (authenticate s = (Inr u, s') \<longrightarrow> is_authenticated s' \<and> user s' = Some u) \<and>
   \<not> is_authenticated (set_auth_lost_callback (Some cb) s) \<and>
   (authenticate s = (r, s') \<and> isl (fst (refresh_if_lost s)) \<longrightarrow>
      isl r \<and> auth_lost_callback s' = auth_lost_callback s \<and> user s' = user s) \<and>
   (authenticate s = (r, s') \<and> \<not> isl (fst (refresh_if_lost s)) \<longrightarrow>
      auth_lost_callback s' = None)"
proof -
  have 1: "authenticate s = (Inr u, s') \<longrightarrow> is_authenticated s' \<and> user s' = Some u"
    using authenticate_frame(3) [of s "Inr u" s'] by (simp add: is_authenticated_def)
  have 2: "authenticate s = (r, s') \<and> isl (fst (refresh_if_lost s)) \<longrightarrow>
             isl r \<and> auth_lost_callback s' = auth_lost_callback s \<and> user s' = user s"
    using refresh_if_lost_frame [of s "fst (refresh_if_lost s)" "snd (refresh_if_lost s)"]
    by (cases "refresh_if_lost s") (auto simp: authenticate_def split: sum.splits)
  have 3: "authenticate s = (r, s') \<and> \<not> isl (fst (refresh_if_lost s)) \<longrightarrow> auth_lost_callback s' = None"
    using authenticate_flag [of s r s'] by simp
  show ?thesis
    using 1 2 3 by (simp add: is_authenticated_def init_def set_auth_lost_callback_def)
qed

theorem is_authenticated_states_witness:
  "is_authenticated (snd (authenticate half_world)) \<and>
   user (snd (authenticate half_world)) = Some 0 \<and>
   \<not> is_authenticated (snd (authenticate (set_auth_lost_callback (Some PyTrue) (snd (authenticate twice_world))\<lparr>provider := silent\<rparr>))) \<and>
   auth_lost_callback
     (snd (authenticate (set_auth_lost_callback (Some PyTrue) (snd (authenticate half_world))))) = None"
proof -
  let ?s1 = "snd (authenticate half_world)"
  let ?s2 = "set_auth_lost_callback (Some PyTrue) ?s1"
  let ?t2 = "(set_auth_lost_callback (Some PyTrue) (snd (authenticate twice_world)))\<lparr>provider := silent\<rparr>"
  have a: "authenticate half_world = (Inr 0, ?s1)"
    by (simp add: half_world_def sample_defs fetch_defs auth_defs)
  have b: "\<not> isl (fst (refresh_if_lost ?s2))"
    by (simp add: half_world_def sample_defs fetch_defs auth_defs refresh_defs set_auth_lost_callback_def)
  have c: "isl (fst (refresh_if_lost ?t2))" "auth_lost_callback ?t2 = Some PyTrue"
    by (simp_all add: twice_world_def sample_defs fetch_defs auth_defs refresh_defs set_auth_lost_callback_def)
  show ?thesis
    using a b c
      is_authenticated_states [where s = half_world and u = 0 and s' = ?s1]
      is_authenticated_states [where s = ?s2 and r = "fst (authenticate ?s2)" and s' = "snd (authenticate ?s2)"]
      is_authenticated_states [where s = ?t2 and r = "fst (authenticate ?t2)" and s' = "snd (authenticate ?t2)"]
      is_authenticated_states [where s = "snd (authenticate ?t2)"]
    by simp
qed

text \<open>
  C7 as stated keeps \<^verbatim>\<open>is_authenticated\<close> false from the moment the auth-lost slot is set
  until an \<^verbatim>\<open>authenticate\<close> succeeds. With a user set, an \<^verbatim>\<open>authenticate\<close> whose refresh
  passes and whose profile fetch then fails raises, and \<^verbatim>\<open>is_authenticated\<close> is true
  afterwards.
\<close>

theorem failed_authenticate_clears_flag:
  "is_authenticated (snd (authenticate half_world)) \<and>
   \<not> is_authenticated (set_auth_lost_callback (Some PyTrue) (snd (authenticate half_world))) \<and>
   fst (authenticate (set_auth_lost_callback (Some PyTrue) (snd (authenticate half_world))))
     = Inl (RequestError ''timeout'') \<and>
   is_authenticated
     (snd (authenticate (set_auth_lost_callback (Some PyTrue) (snd (authenticate half_world)))))"
  by (simp add: half_world_def sample_defs fetch_defs auth_defs refresh_defs is_authenticated_def
        set_auth_lost_callback_def)

subsection \<open>The played games\<close>

lemma collect_pc_result:
  "collect_pc games acc = Inr ids \<Longrightarrow>
     map Some ids = map Some acc @ map id_of (filter is_pc games)"
proof (induction games arbitrary: acc)
  case Nil
  then show ?case by simp
next
  case (Cons game rest)
  then show ?case
    by (auto simp: is_pc_def id_of_def split: sum.splits if_splits)
qed

lemma collect_pc_total:
  "list_all well_formed_game games \<Longrightarrow>
     collect_pc games acc = Inr (acc @ map (\<lambda>g. the (id_of g)) (filter is_pc games))"
proof (induction games arbitrary: acc)
  case Nil
  then show ?case by simp
next
  case (Cons game rest)
  then show ?case
    by (auto simp: is_pc_def id_of_def well_formed_game_def split: sum.splits)
qed

lemma get_played_games_unfold:
  "get_played_games s =
     (case get_user_json None s of
        (Inl e, s1) \<Rightarrow> (Inl e, log_add ERROR
             [Lit ''ROCKSTAR_PLAYED_GAMES_ERROR: The request to scrape the user's played games resulted in this exception: '',
              Repr e] s1)
      | (Inr doc, s1) \<Rightarrow>
         (case played_games_of doc of
            Inl e \<Rightarrow> (Inl e, log_add ERROR
             [Lit ''ROCKSTAR_PLAYED_GAMES_ERROR: The request to scrape the user's played games resulted in this exception: '',
              Repr e] s1)
          | Inr gp \<Rightarrow>
             (case py_iter gp of
                Inl e \<Rightarrow> (Inl e, log_add ERROR
             [Lit ''ROCKSTAR_PLAYED_GAMES_ERROR: The request to scrape the user's played games resulted in this exception: '',
              Repr e] s1)
              | Inr games \<Rightarrow>
                 (case collect_pc games [] of
                    Inl e \<Rightarrow> (Inl e, log_add ERROR
             [Lit ''ROCKSTAR_PLAYED_GAMES_ERROR: The request to scrape the user's played games resulted in this exception: '',
              Repr e] s1)
                  | Inr ids \<Rightarrow> (Inr ids, s1)))))"
  by (simp add: get_played_games_def get_played_games_try_def split: prod.splits sum.splits)

text \<open>
  C8. When the profile fetch fails, \<^verbatim>\<open>get_played_games\<close> fails with the same exception.
  When it returns a document whose \<^verbatim>\<open>user.games_played\<close> is a list of well-formed
  entries, the result is the list of the ids of the PC entries, in the order of the
  document, and it is empty exactly when there is no PC entry. Conversely, whenever
  \<^verbatim>\<open>get_played_games\<close> returns a list, the profile fetch has returned a document, and the
  list holds exactly the ids of the PC entries among the entries of \<^verbatim>\<open>user.games_played\<close>,
  in their order; it is empty exactly when there is none.
\<close>

theorem get_played_games_pc_ids:
  "(get_user_json None s = (Inl e, s1) \<longrightarrow> fst (get_played_games s) = Inl e) \<and>
   (get_user_json None s = (Inr doc, s1) \<and> played_games_of doc = Inr (JArr games) \<and>
    list_all well_formed_game games \<longrightarrow>
      get_played_games s = (Inr (map (\<lambda>g. the (id_of g)) (filter is_pc games)), s1) \<and>
      (fst (get_played_games s) = Inr [] \<longleftrightarrow> filter is_pc games = [])) \<and>
   (get_played_games s = (Inr ids, s2) \<longrightarrow>
      (\<exists>doc gp entries.
         get_user_json None s = (Inr doc, s2) \<and> played_games_of doc = Inr gp \<and>
         py_iter gp = Inr entries \<and> map Some ids = map id_of (filter is_pc entries) \<and>
         (ids = [] \<longleftrightarrow> filter is_pc entries = [])))"
proof (intro conjI impI; (elim conjE)?)
  assume "get_user_json None s = (Inl e, s1)"
  then show "fst (get_played_games s) = Inl e"
    by (simp add: get_played_games_unfold)
next
  assume a: "get_user_json None s = (Inr doc, s1)" "played_games_of doc = Inr (JArr games)"
    "list_all well_formed_game games"
  show g: "get_played_games s = (Inr (map (\<lambda>g. the (id_of g)) (filter is_pc games)), s1)"
    using a collect_pc_total [OF a(3), of "[]"] by (simp add: get_played_games_unfold)
  show "fst (get_played_games s) = Inr [] \<longleftrightarrow> filter is_pc games = []"
    by (simp add: g)
next
  assume a: "get_played_games s = (Inr ids, s2)"
  then obtain doc gp entries where
    1: "get_user_json None s = (Inr doc, s2)" and 2: "played_games_of doc = Inr gp"
    and 3: "py_iter gp = Inr entries" and 4: "collect_pc entries [] = Inr ids"
    by (auto simp: get_played_games_unfold split: prod.splits sum.splits)
  have 5: "map Some ids = map id_of (filter is_pc entries)"
    using collect_pc_result [OF 4] by simp
  then have "length ids = length (filter is_pc entries)"
    by (metis length_map)
  then have "ids = [] \<longleftrightarrow> filter is_pc entries = []"
    by (metis length_0_conv)
  with 1 2 3 5 show "\<exists>doc gp entries.
         get_user_json None s = (Inr doc, s2) \<and> played_games_of doc = Inr gp \<and>
         py_iter gp = Inr entries \<and> map Some ids = map id_of (filter is_pc entries) \<and>
         (ids = [] \<longleftrightarrow> filter is_pc entries = [])"
    by blast
qed

theorem get_played_games_pc_ids_witness:
  "fst (get_played_games games_world) = Inr [JStr ''A'', JStr ''C''] \<and>
   fst (get_played_games (logged_in silent)) = Inl (RequestError ''offline'')"
proof -
  let ?games = "[JObj [(''id'', JStr ''A''), (''platform'', JStr ''PC'')],
                 JObj [(''id'', JStr ''B''), (''platform'', JStr ''PS4'')],
                 JObj [(''id'', JStr ''C''), (''platform'', JStr ''PC'')]]"
  have a: "get_user_json None games_world = (Inr profile_doc, snd (get_user_json None games_world))"
    by (simp add: games_world_def sample_defs fetch_defs)
  have b: "played_games_of profile_doc = Inr (JArr ?games)" "list_all well_formed_game ?games"
    by (simp_all add: profile_doc_def played_games_of_def well_formed_game_def id_of_def)
  have c: "get_user_json None (logged_in silent)
             = (Inl (RequestError ''offline''), snd (get_user_json None (logged_in silent)))"
    by (simp add: sample_defs fetch_defs)
  show ?thesis
    using a b c
      get_played_games_pc_ids [where s = games_world and doc = profile_doc and games = ?games
        and ?s1.0 = "snd (get_user_json None games_world)"]
      get_played_games_pc_ids [where s = "logged_in silent" and e = "RequestError ''offline''"
        and ?s1.0 = "snd (get_user_json None (logged_in silent))"]
    by (simp add: is_pc_def id_of_def)
qed

subsection \<open>The credentials dict\<close>

lemma map_of_update: "map_of (AList.update k v d) k' = (if k' = k then Some v else map_of d k')"
  by (simp add: update_conv')

lemma set_user_dict:
  "set_user doc s = (Inr u, s') \<Longrightarrow>
     u = next_ref s \<and> user s' = Some u \<and>
     map fst (heap s' u) = [''display_name'', ''rockstar_id'', ''session_object'',
                            ''current_auth_token'', ''refresh_token'', ''fingerprint''] \<and>
     last (stored s') = (u, heap s' u)"
  unfolding set_user_def Let_def get_credentials_def store_credentials_def log_add_def
  by (auto split: sum.splits prod.splits option.splits)

lemma authenticate_dict:
  "authenticate s = (Inr u, s') \<Longrightarrow>
     user s' = Some u \<and>
     map fst (heap s' u) = [''display_name'', ''rockstar_id'', ''session_object'',
                            ''current_auth_token'', ''refresh_token'', ''fingerprint''] \<and>
     last (stored s') = (u, heap s' u)"
  unfolding authenticate_def Let_def
  by (auto split: sum.splits prod.splits dest!: set_user_dict)

text \<open>
  C10. With a user set, \<^verbatim>\<open>get_credentials\<close> returns the reference that \<open>user\<close> holds and
  allocates nothing; afterwards \<open>user\<close> still holds that reference, and the dict it refers
  to maps the keys session_object, current_auth_token, refresh_token and fingerprint to
  the serialised session, the auth token, the serialised refresh-token box and the
  fingerprint, every other key as before; no other dict changes. After a successful
  \<^verbatim>\<open>authenticate\<close> the dict of the user has the keys display_name, rockstar_id and these
  four, and it is the object that the store-credentials callback received last.
\<close>

theorem get_credentials_mutates_user:
  "(user s = Some a \<longrightarrow>
      fst (get_credentials s) = Inr a \<and>
      user (snd (get_credentials s)) = Some a \<and>
      next_ref (snd (get_credentials s)) = next_ref s \<and>
      map_of (heap (snd (get_credentials s)) a) ''session_object'' = Some (PHexSession (current_session s)) \<and>
      map_of (heap (snd (get_credentials s)) a) ''current_auth_token'' = Some (PStr (current_auth_token s)) \<and>
      map_of (heap (snd (get_credentials s)) a) ''refresh_token'' = Some (PHexToken (refresh_token s)) \<and>
      map_of (heap (snd (get_credentials s)) a) ''fingerprint'' = Some (PStr (fingerprint s)) \<and>
      (k \<notin> credential_keys \<longrightarrow> map_of (heap (snd (get_credentials s)) a) k = map_of (heap s a) k) \<and>
      (b \<noteq> a \<longrightarrow> heap (snd (get_credentials s)) b = heap s b)) \<and>
   (authenticate s = (Inr u, s') \<longrightarrow>
      user s' = Some u \<and>
      map fst (heap s' u) = [''display_name'', ''rockstar_id'', ''session_object'',
                             ''current_auth_token'', ''refresh_token'', ''fingerprint''] \<and>
      last (stored s') = (u, heap s' u))"
proof -
  have "authenticate s = (Inr u, s') \<longrightarrow>
      user s' = Some u \<and>
      map fst (heap s' u) = [''display_name'', ''rockstar_id'', ''session_object'',
                             ''current_auth_token'', ''refresh_token'', ''fingerprint''] \<and>
      last (stored s') = (u, heap s' u)"
    using authenticate_dict [of s u s'] by blast
  then show ?thesis
    by (simp add: get_credentials_def map_of_update credential_keys_def)
qed

theorem get_credentials_mutates_user_witness:
  "user (snd (authenticate twice_world)) = Some 0 \<and>
   map fst (heap (snd (authenticate twice_world)) 0)
     = [''display_name'', ''rockstar_id'', ''session_object'', ''current_auth_token'',
        ''refresh_token'', ''fingerprint''] \<and>
   fst (get_credentials (snd (authenticate twice_world))) = Inr 0 \<and>
   map_of (heap (snd (get_credentials (snd (authenticate twice_world)))) 0) ''display_name''
     = Some (PJson (JStr ''Niko''))"
proof -
  let ?s1 = "snd (authenticate twice_world)"
  have a: "authenticate twice_world = (Inr 0, ?s1)"
    by (simp add: twice_world_def sample_defs fetch_defs auth_defs)
  have b: "map_of (heap ?s1 0) ''display_name'' = Some (PJson (JStr ''Niko''))"
    by (simp add: twice_world_def sample_defs fetch_defs auth_defs)
  show ?thesis
    using a b
      get_credentials_mutates_user [where s = twice_world and u = 0 and s' = ?s1]
      get_credentials_mutates_user [where s = ?s1 and a = 0 and k = "''display_name''"]
    by (simp add: credential_keys_def)
qed

subsection \<open>The auth token in the log\<close>

text \<open>
  C9. The profile fetch logs the auth token with only its first five and last three
  characters. The refresh does not: \<^verbatim>\<open>refresh_credentials\<close> writes the old auth token and
  the new one to the log in full.
\<close>

theorem refresh_logs_full_token:
  "fst (refresh_credentials refresh_world) = Inr () \<and>
   log (snd (refresh_credentials refresh_world)) =
     [(DEBUG, [Lit ''ROCKSTAR_REFRESH_CODE: Got code code!'']),
      (DEBUG, [Lit ''ROCKSTAR_RMT_MISSING: The RMT cookie is missing, presumably because the user has not enabled two-factor authentication. Proceeding anyways...'']),
      (DEBUG, [Lit ''ROCKSTAR_OLD_AUTH_REFRESH: SECRET-TOKEN-0001'']),
      (DEBUG, [Lit ''ROCKSTAR_REFRESH_JSON: '', Str (JObj [])]),
      (DEBUG, [Lit ''ROCKSTAR_NEW_AUTH_REFRESH: SECRET-TOKEN-0002'']),
      (DEBUG, [Lit ''ROCKSTAR_REFRESH_SUCCESS: The user has been successfully re-authenticated!''])] \<and>
   log (snd (get_user_json None games_world)) =
     [(DEBUG, [Lit ''ROCKSTAR_OLD_AUTH: SECRE***001'']),
      (DEBUG, [Lit ''ROCKSTAR_NEW_AUTH SECRE***001''])]"
  by (simp add: refresh_world_def games_world_def sample_defs fetch_defs refresh_defs)

subsection \<open>Retries of \<^verbatim>\<open>get_json_from_request_strict\<close>\<close>

text \<open>
  C2. \<^verbatim>\<open>do_request\<close> attempts its request at most twice (see C1). In
  \<^verbatim>\<open>get_json_from_request_strict\<close> the \<^verbatim>\<open>except\<close> block ends with a call of the method
  itself, so every failed attempt that is followed by a successful \<^verbatim>\<open>authenticate\<close>
  leads to another attempt: here the request is sent three times.
\<close>

theorem strict_request_third_attempt:
  "map_option fst (get_json_from_request_strict (Suc (Suc (Suc 0))) api_url True strict_world)
     = Some (Inr JNull) \<and>
   map_option (\<lambda>x. attempts (FreshGet api_url) (snd x))
     (get_json_from_request_strict (Suc (Suc (Suc 0))) api_url True strict_world) = Some 3"
  by (simp add: strict_world_def api_url_def sample_defs fetch_defs refresh_defs auth_defs
        request_defs)

end
